theory Spec2Isabelle
  imports Main
begin

section \<open>Data model of \<open>src/index.ts\<close>\<close>

text \<open>
  The interfaces of the source become records. Fields that several interfaces
  share (\<open>type\<close>, \<open>name\<close>, \<open>value\<close>, \<open>end\<close>, \<open>line\<close>) carry a prefix that tells the
  record. A property that may be missing at run time is an \<open>option\<close>.

  The plugin options after defaults have been resolved
  (\<open>Required<GhostmarkOptions>\<close>). The fields \<open>include\<close> and \<open>exclude\<close> of the
  source are called \<open>include_list\<close> and \<open>exclude_list\<close> here.
\<close>

record GhostmarkOptions =
  includeId :: bool
  includeName :: bool
  includePath :: bool
  includeLine :: bool
  includeFile :: bool
  includeContent :: bool
  tagPrefix :: string
  include_list :: "string list"
  exclude_list :: "string list"
  useRelativePath :: bool
  debug :: bool
  filter3DElements :: bool

record JSXLocation =
  loc_line :: nat
  loc_column :: nat

record SourceLoc =
  loc_start :: "JSXLocation option"

text \<open>
  An object that may carry a \<open>name\<close> (the \<open>object\<close> and \<open>property\<close> parts of a
  member expression). The name is optional at run time: the object of a nested
  member expression such as \<open>A.B.C\<close> is itself a member expression without a
  \<open>name\<close> property.
\<close>

record NameRef =
  ref_name :: "string option"

text \<open>
  The \<open>name\<close> object of an opening tag. The source declares \<open>end: number\<close> and
  still guards it with \<open>??\<close>, so the offset is optional in the model.
\<close>

record JSXName =
  name_type :: string
  name_name :: "string option"
  name_object :: "NameRef option"
  name_property :: "NameRef option"
  name_end :: "nat option"

record TypeParameters =
  tp_end :: "nat option"

record JSXExpression =
  expr_type :: string
  expr_value :: "string option"

record JSXAttrValue =
  val_type :: string
  val_value :: "string option"
  val_expression :: "JSXExpression option"

text \<open>
  An attribute node; \<open>attr_name\<close> is \<open>attr.name?.name\<close>.
\<close>

record JSXAttribute =
  attr_type :: string
  attr_name :: "string option"
  attr_value :: "JSXAttrValue option"

record JSXNode =
  node_type :: string
  name :: JSXName
  loc :: "SourceLoc option"
  attributes :: "JSXAttribute list"
  typeParameters :: "TypeParameters option"

record JSXChild =
  child_type :: string
  child_value :: "string option"
  child_expression :: "JSXExpression option"

record JSXElement =
  element_type :: string
  children :: "JSXChild list option"

record ElementContent =
  content_text :: "string option"
  content_placeholder :: "string option"
  content_className :: "string option"

record ProcessingStats =
  totalFiles :: nat
  processedFiles :: nat
  totalElements :: nat
  skippedElements :: nat

text \<open>
  The argument \<open>data\<close> of \<open>buildDataAttributes\<close>.
\<close>

record AnnotationData =
  elementName :: string
  filePath :: string
  fileName :: string
  line :: nat
  col :: nat
  content :: ElementContent

subsection \<open>The parsed tree\<close>

text \<open>
  The tree that the parser hands to the walker. The walker visits the
  sub-nodes of a node in the order of its keys; for a \<open>JSXElement\<close> these are
  \<open>openingElement\<close>, \<open>closingElement\<close> and \<open>children\<close>. An opening tag carries the
  fields the plugin reads (\<open>JSXNode\<close>) and the nodes nested below it (its name
  and the expressions inside its attributes). \<open>OtherNode\<close> is a node of any other
  type, with its sub-nodes in key order.
\<close>

datatype node =
    ElementNode node "node option" "node list"
  | OpeningNode JSXNode "node list"
  | TextNode "string option"
  | ContainerNode node
  | StringLiteralNode "string option"
  | OtherNode string "node list"

fun type_tag :: "node \<Rightarrow> string" where
  "type_tag (ElementNode opening closing kids) = ''JSXElement''"
| "type_tag (OpeningNode jsxNode subs) = ''JSXOpeningElement''"
| "type_tag (TextNode v) = ''JSXText''"
| "type_tag (ContainerNode e) = ''JSXExpressionContainer''"
| "type_tag (StringLiteralNode v) = ''StringLiteral''"
| "type_tag (OtherNode t subs) = t"

fun value_of :: "node \<Rightarrow> string option" where
  "value_of (TextNode v) = v"
| "value_of (StringLiteralNode v) = v"
| "value_of n = None"

text \<open>The views of a node through the interfaces of the source.\<close>

definition as_expression :: "node \<Rightarrow> JSXExpression" where
  "as_expression n = \<lparr> expr_type = type_tag n, expr_value = value_of n \<rparr>"

fun as_child :: "node \<Rightarrow> JSXChild" where
  "as_child (ContainerNode e) =
     \<lparr> child_type = ''JSXExpressionContainer'', child_value = None,
       child_expression = Some (as_expression e) \<rparr>"
| "as_child n =
     \<lparr> child_type = type_tag n, child_value = value_of n, child_expression = None \<rparr>"

fun as_element :: "node \<Rightarrow> JSXElement" where
  "as_element (ElementNode opening closing kids) =
     \<lparr> element_type = ''JSXElement'', children = Some (map as_child kids) \<rparr>"
| "as_element n = \<lparr> element_type = type_tag n, children = None \<rparr>"

subsection \<open>The platform\<close>

text \<open>
  What the plugin takes from outside the repository: the parser (\<open>None\<close> when
  it throws), the functions of \<open>path\<close>, the working directory,
  \<open>encodeURIComponent\<close>, \<open>JSON.stringify\<close> on a content object, and the
  rendering of the edit buffer (\<open>MagicString.toString\<close>) from the original text
  and the insertions registered with \<open>appendLeft\<close>, in the order of the calls.
\<close>

record host =
  parse :: "string \<Rightarrow> node option"
  extname :: "string \<Rightarrow> string"
  relative :: "string \<Rightarrow> string \<Rightarrow> string"
  basename :: "string \<Rightarrow> string"
  cwd :: string
  encodeURIComponent :: "string \<Rightarrow> string"
  JSON_stringify :: "ElementContent \<Rightarrow> string"
  magic_toString :: "string \<Rightarrow> (nat \<times> string) list \<Rightarrow> string"

text \<open>
  The state of one traversal: the local variables of \<open>transform\<close> that the
  handler writes, and the counters of the plugin instance.
\<close>

record walk_state =
  currentElement :: "JSXElement option"
  magicString :: "(nat \<times> string) list"
  changedElementsCount :: nat
  stats :: ProcessingStats

section \<open>String primitives of the host language\<close>

text \<open>
  A character of the model is one code unit below 256, so a string of the
  model is a string of the host language over the Latin-1 range. The white
  space and line terminators that \<open>String.prototype.trim\<close> removes are, in
  that range, TAB, LF, VT, FF, CR, SPACE and NO-BREAK SPACE (U+00A0); the
  others (U+FEFF, U+2028, U+2029 and the further space separators) lie
  outside it.
\<close>

definition isWhiteSpace :: "char \<Rightarrow> bool" where
  "isWhiteSpace c \<longleftrightarrow>
     c \<in> set [CHR 0x09, CHR 0x0A, CHR 0x0B, CHR 0x0C, CHR 0x0D, CHR '' '', CHR 0xA0]"

definition trim :: "string \<Rightarrow> string" where
  "trim s = rev (dropWhile isWhiteSpace (rev (dropWhile isWhiteSpace s)))"

text \<open>\<open>Array.prototype.join\<close> on an array of strings.\<close>

fun join :: "string \<Rightarrow> string list \<Rightarrow> string" where
  "join sep [] = []"
| "join sep [x] = x"
| "join sep (x # y # ys) = x @ sep @ join sep (y # ys)"

text \<open>\<open>String.prototype.includes\<close>: the second string occurs in the first.\<close>

fun str_includes :: "string \<Rightarrow> string \<Rightarrow> bool" where
  "str_includes [] sub = (sub = [])"
| "str_includes (c # cs) sub = (take (length sub) (c # cs) = sub \<or> str_includes cs sub)"

text \<open>A string is truthy when it is not empty.\<close>

definition truthy :: "string \<Rightarrow> bool" where
  "truthy s \<longleftrightarrow> s \<noteq> []"

text \<open>Decimal rendering of a non-negative integer, as a template literal does.\<close>

definition digit_char :: "nat \<Rightarrow> char" where
  "digit_char d = ''0123456789'' ! (d mod 10)"

function string_of_nat :: "nat \<Rightarrow> string" where
  "string_of_nat n =
     (if n < 10 then [digit_char n] else string_of_nat (n div 10) @ [digit_char (n mod 10)])"
  by pat_completeness auto
termination
  by (relation "measure id") auto

declare string_of_nat.simps [simp del]

section \<open>Classifier\<close>

text \<open>
  \<open>transform\<close> never calls \<open>isUpperCase\<close> and \<open>isCustomComponent\<close>; they are
  left out.
\<close>

definition THREE_D_ELEMENTS :: "string list" where
  "THREE_D_ELEMENTS =
    [''mesh'', ''group'', ''scene'', ''object3D'',
     ''geometry'', ''bufferGeometry'', ''boxGeometry'', ''sphereGeometry'',
     ''planeGeometry'', ''cylinderGeometry'', ''coneGeometry'', ''torusGeometry'',
     ''circleGeometry'', ''ringGeometry'', ''tubeGeometry'', ''extrudeGeometry'',
     ''material'', ''meshBasicMaterial'', ''meshStandardMaterial'',
     ''meshPhysicalMaterial'', ''meshLambertMaterial'', ''meshPhongMaterial'',
     ''shaderMaterial'', ''lineBasicMaterial'', ''pointsMaterial'',
     ''ambientLight'', ''directionalLight'', ''pointLight'', ''spotLight'',
     ''hemisphereLight'', ''rectAreaLight'',
     ''perspectiveCamera'', ''orthographicCamera'',
     ''OrbitControls'', ''PerspectiveCamera'', ''OrthographicCamera'',
     ''Stars'', ''Sky'', ''Environment'', ''ContactShadows'', ''BakeShadows'',
     ''SoftShadows'', ''AccumulativeShadows'', ''RandomizedLight'',
     ''Box'', ''Sphere'', ''Plane'', ''Cylinder'', ''Cone'', ''Torus'', ''Circle'',
     ''Text'', ''Text3D'', ''MeshReflectorMaterial'', ''MeshWobbleMaterial'',
     ''MeshDistortMaterial'', ''Float'', ''Stage'', ''Lightformer'',
     ''SpotLight'', ''PointLight'', ''DirectionalLight'', ''AmbientLight'']"

definition is3DElement :: "string \<Rightarrow> bool" where
  "is3DElement n \<longleftrightarrow> n \<in> set THREE_D_ELEMENTS"

text \<open>
  \<open>x?.name ?? ''\<close> on an optional object whose name may be missing.
\<close>

definition name_or_empty :: "NameRef option \<Rightarrow> string" where
  "name_or_empty r =
     (case r of None \<Rightarrow> [] | Some x \<Rightarrow> (case ref_name x of None \<Rightarrow> [] | Some s \<Rightarrow> s))"

definition extractElementName :: "JSXNode \<Rightarrow> string option" where
  "extractElementName jsxNode =
     (if name_type (name jsxNode) = ''JSXIdentifier'' then name_name (name jsxNode)
      else if name_type (name jsxNode) = ''JSXMemberExpression'' then
        (let object = name_or_empty (name_object (name jsxNode));
             property = name_or_empty (name_property (name jsxNode))
         in Some (object @ ''.'' @ property))
      else None)"

text \<open>
  \<open>shouldSkipElement\<close>; \<open>!elementName\<close> holds for \<open>null\<close> and for the empty
  string.
\<close>

definition shouldSkipElement :: "string option \<Rightarrow> GhostmarkOptions \<Rightarrow> bool" where
  "shouldSkipElement elName options =
     (case elName of
        None \<Rightarrow> True
      | Some n \<Rightarrow>
          if \<not> truthy n then True
          else if n = ''Fragment'' \<or> n = ''React.Fragment'' then True
          else if filter3DElements options \<and> is3DElement n then True
          else False)"

section \<open>Content extractor\<close>

text \<open>
  One step of the \<open>reduce\<close> in \<open>extractElementAttributes\<close>; the accumulator is
  the object being filled, a map from attribute names to strings.
\<close>

definition attribute_step ::
  "(string \<rightharpoonup> string) \<Rightarrow> JSXAttribute \<Rightarrow> (string \<rightharpoonup> string)" where
  "attribute_step acc attr =
     (if attr_type attr \<noteq> ''JSXAttribute'' then acc
      else case attr_name attr of
        None \<Rightarrow> acc
      | Some attrName \<Rightarrow>
          if \<not> truthy attrName then acc
          else case attr_value attr of
            None \<Rightarrow> acc
          | Some v \<Rightarrow>
              if val_type v = ''StringLiteral'' then
                acc(attrName \<mapsto> (case val_value v of None \<Rightarrow> [] | Some s \<Rightarrow> s))
              else if val_type v = ''JSXExpressionContainer'' then
                (case val_expression v of
                   None \<Rightarrow> acc
                 | Some e \<Rightarrow>
                     if expr_type e = ''StringLiteral'' then
                       acc(attrName \<mapsto> (case expr_value e of None \<Rightarrow> [] | Some s \<Rightarrow> s))
                     else acc)
              else acc)"

definition extractElementAttributes :: "JSXAttribute list \<Rightarrow> (string \<rightharpoonup> string)" where
  "extractElementAttributes attrs = foldl attribute_step Map.empty attrs"

text \<open>The callback of the \<open>map\<close> in \<open>extractTextContent\<close>.\<close>

definition child_text :: "JSXChild \<Rightarrow> string" where
  "child_text child =
     (if child_type child = ''JSXText'' then
        (case child_value child of None \<Rightarrow> [] | Some v \<Rightarrow> trim v)
      else if child_type child = ''JSXExpressionContainer'' then
        (case child_expression child of
           None \<Rightarrow> []
         | Some e \<Rightarrow>
             if expr_type e = ''StringLiteral'' then
               (case expr_value e of None \<Rightarrow> [] | Some v \<Rightarrow> v)
             else [])
      else [])"

definition extractTextContent :: "JSXElement option \<Rightarrow> string" where
  "extractTextContent element =
     (case element of
        None \<Rightarrow> []
      | Some el \<Rightarrow>
          (case children el of
             None \<Rightarrow> []
           | Some cs \<Rightarrow> trim (join '' '' (filter truthy (map child_text cs)))))"

section \<open>Descriptor builder\<close>

text \<open>A field is set only from a truthy (non-empty) string.\<close>

definition truthy_field :: "string option \<Rightarrow> string option" where
  "truthy_field v = (case v of None \<Rightarrow> None | Some s \<Rightarrow> if truthy s then Some s else None)"

definition buildContentObject :: "string \<Rightarrow> (string \<rightharpoonup> string) \<Rightarrow> ElementContent" where
  "buildContentObject textContent attrs =
     \<lparr> content_text = (if truthy textContent then Some textContent else None),
       content_placeholder = truthy_field (attrs ''placeholder''),
       content_className = truthy_field (attrs ''className'') \<rparr>"

text \<open>\<open>Object.keys(content).length\<close>: the number of fields that are set.\<close>

definition content_keys :: "ElementContent \<Rightarrow> nat" where
  "content_keys c =
     (if content_text c = None then 0 else 1)
     + (if content_placeholder c = None then 0 else 1)
     + (if content_className c = None then 0 else 1)"

section \<open>Attribute serializer\<close>

text \<open>
  The array \<open>attributes\<close> of \<open>buildDataAttributes\<close> after the six conditional
  pushes.
\<close>

definition pushed_attributes :: "host \<Rightarrow> GhostmarkOptions \<Rightarrow> AnnotationData \<Rightarrow> string list" where
  \<open>pushed_attributes h options d =
     (let a0 = [];
          a1 = (if includeId options then
                  (let componentId =
                         filePath d @ '':'' @ string_of_nat (line d) @ '':'' @ string_of_nat (col d)
                   in a0 @ [''data-'' @ tagPrefix options @ ''-id="'' @ componentId @ ''"''])
                else a0);
          a2 = (if includeName options then
                  a1 @ [''data-'' @ tagPrefix options @ ''-name="'' @ elementName d @ ''"'']
                else a1);
          a3 = (if includePath options then
                  a2 @ [''data-'' @ tagPrefix options @ ''-path="'' @ filePath d @ ''"'']
                else a2);
          a4 = (if includeLine options then
                  a3 @ [''data-'' @ tagPrefix options @ ''-line="'' @ string_of_nat (line d) @ ''"'']
                else a3);
          a5 = (if includeFile options then
                  a4 @ [''data-'' @ tagPrefix options @ ''-file="'' @ fileName d @ ''"'']
                else a4);
          a6 = (if includeContent options \<and> content_keys (content d) > 0 then
                  (let encodedContent = encodeURIComponent h (JSON_stringify h (content d))
                   in a5 @ [''data-'' @ tagPrefix options @ ''-content="'' @ encodedContent @ ''"''])
                else a5)
      in a6)\<close>

definition buildDataAttributes :: "host \<Rightarrow> GhostmarkOptions \<Rightarrow> AnnotationData \<Rightarrow> string" where
  "buildDataAttributes h options d =
     (let attrs = pushed_attributes h options d
      in if length attrs > 0 then '' '' @ join '' '' attrs else [])"

section \<open>Offset resolver\<close>

text \<open>\<open>jsxNode.typeParameters?.end ?? jsxNode.name.end ?? 0\<close>.\<close>

definition getInsertPosition :: "JSXNode \<Rightarrow> nat" where
  "getInsertPosition jsxNode =
     (case (case typeParameters jsxNode of None \<Rightarrow> None | Some tp \<Rightarrow> tp_end tp) of
        Some k \<Rightarrow> k
      | None \<Rightarrow> (case name_end (name jsxNode) of Some n \<Rightarrow> n | None \<Rightarrow> 0))"

section \<open>File filter\<close>

definition shouldProcessFile :: "host \<Rightarrow> string \<Rightarrow> GhostmarkOptions \<Rightarrow> bool" where
  "shouldProcessFile h path options =
     (let ext = extname h path
      in if ext \<notin> set (include_list options) then False
         else \<not> list_ex (\<lambda>excludePath. str_includes path excludePath) (exclude_list options))"

section \<open>Traversal controller\<close>

text \<open>
  The body of the handler for a node of type \<open>JSXOpeningElement\<close>. Debug
  logging is left out. After the skip test the name is not \<open>null\<close>; a \<open>null\<close>
  in a template literal would read \<open>null\<close>.
\<close>

definition enter_opening ::
  "host \<Rightarrow> GhostmarkOptions \<Rightarrow> string \<Rightarrow> string \<Rightarrow> walk_state \<Rightarrow> JSXNode \<Rightarrow> walk_state" where
  "enter_opening h options path file st jsxNode =
     (let elName = extractElementName jsxNode
      in if shouldSkipElement elName options then
           (if (case elName of None \<Rightarrow> False | Some n \<Rightarrow> truthy n) then
              st\<lparr> stats := (stats st)\<lparr> skippedElements := skippedElements (stats st) + 1 \<rparr> \<rparr>
            else st)
         else
           (let elementAttributes = extractElementAttributes (attributes jsxNode);
                textContent = extractTextContent (currentElement st);
                contentObject = buildContentObject textContent elementAttributes;
                l = (case loc jsxNode of
                       None \<Rightarrow> 0
                     | Some lc \<Rightarrow> (case loc_start lc of None \<Rightarrow> 0 | Some s \<Rightarrow> loc_line s));
                c = (case loc jsxNode of
                       None \<Rightarrow> 0
                     | Some lc \<Rightarrow> (case loc_start lc of None \<Rightarrow> 0 | Some s \<Rightarrow> loc_column s));
                attrs = buildDataAttributes h options
                  \<lparr> elementName = (case elName of None \<Rightarrow> ''null'' | Some n \<Rightarrow> n),
                    filePath = path, fileName = file, line = l, col = c,
                    content = contentObject \<rparr>
            in if truthy attrs then
                 (let insertPosition = getInsertPosition jsxNode
                  in st\<lparr> magicString := magicString st @ [(insertPosition, attrs)],
                         changedElementsCount := changedElementsCount st + 1 \<rparr>)
               else st))"

text \<open>The \<open>enter\<close> handler given to the walker. There is no \<open>leave\<close> handler.\<close>

fun enter ::
  "host \<Rightarrow> GhostmarkOptions \<Rightarrow> string \<Rightarrow> string \<Rightarrow> walk_state \<Rightarrow> node \<Rightarrow> walk_state" where
  "enter h options path file st (ElementNode opening closing kids) =
     st\<lparr> currentElement := Some (as_element (ElementNode opening closing kids)) \<rparr>"
| "enter h options path file st (OpeningNode jsxNode subs) =
     enter_opening h options path file st jsxNode"
| "enter h options path file st n = st"

text \<open>
  The walk: \<open>enter\<close> on the node, then its sub-nodes in key order, depth
  first.
\<close>

fun walk ::
  "host \<Rightarrow> GhostmarkOptions \<Rightarrow> string \<Rightarrow> string \<Rightarrow> walk_state \<Rightarrow> node \<Rightarrow> walk_state"
and walk_nodes ::
  "host \<Rightarrow> GhostmarkOptions \<Rightarrow> string \<Rightarrow> string \<Rightarrow> walk_state \<Rightarrow> node list \<Rightarrow> walk_state" where
  "walk h options path file st (ElementNode opening closing kids) =
     (let s0 = enter h options path file st (ElementNode opening closing kids);
          s1 = walk h options path file s0 opening;
          s2 = (case closing of None \<Rightarrow> s1 | Some c \<Rightarrow> walk h options path file s1 c)
      in walk_nodes h options path file s2 kids)"
| "walk h options path file st (OpeningNode jsxNode subs) =
     walk_nodes h options path file (enter h options path file st (OpeningNode jsxNode subs)) subs"
| "walk h options path file st (TextNode v) = enter h options path file st (TextNode v)"
| "walk h options path file st (ContainerNode e) =
     walk h options path file (enter h options path file st (ContainerNode e)) e"
| "walk h options path file st (StringLiteralNode v) =
     enter h options path file st (StringLiteralNode v)"
| "walk h options path file st (OtherNode t subs) =
     walk_nodes h options path file (enter h options path file st (OtherNode t subs)) subs"
| "walk_nodes h options path file st [] = st"
| "walk_nodes h options path file st (n # ns) =
     walk_nodes h options path file (walk h options path file st n) ns"

text \<open>
  \<open>transform\<close>: the result is \<open>null\<close> (\<open>None\<close>) or the new code (the source
  map is left out), together with the counters afterwards. A parser that
  throws takes the \<open>catch\<close> branch; no other exception is modelled.
\<close>

definition transform ::
  "host \<Rightarrow> GhostmarkOptions \<Rightarrow> ProcessingStats \<Rightarrow> string \<Rightarrow> string
     \<Rightarrow> string option \<times> ProcessingStats" where
  "transform h options stats0 code ident =
     (if \<not> shouldProcessFile h ident options then (None, stats0)
      else
        (let stats1 = stats0\<lparr> totalFiles := totalFiles stats0 + 1 \<rparr>;
             path = (if useRelativePath options then relative h (cwd h) ident else ident);
             file = basename h ident
         in case parse h code of
              None \<Rightarrow> (None, stats1\<lparr> processedFiles := processedFiles stats1 + 1 \<rparr>)
            | Some ast \<Rightarrow>
                (let st = walk h options path file
                            \<lparr> currentElement = None, magicString = [],
                              changedElementsCount = 0, stats = stats1 \<rparr> ast;
                     stats2 = (stats st)\<lparr> processedFiles := processedFiles (stats st) + 1 \<rparr>;
                     stats3 = stats2\<lparr> totalElements := totalElements stats2 + changedElementsCount st \<rparr>
                 in (Some (magic_toString h code (magicString st)), stats3))))"

section \<open>Reference definitions\<close>

subsection \<open>The parts of a member-expression name\<close>

text \<open>
  A part (object or property) of a member-expression name is missing when the
  node is absent or has no \<open>name\<close>; otherwise it is named by its \<open>name\<close>.
\<close>

definition part_missing :: "NameRef option \<Rightarrow> bool" where
  "part_missing r \<longleftrightarrow> (case r of None \<Rightarrow> True | Some x \<Rightarrow> ref_name x = None)"

definition part_named :: "NameRef option \<Rightarrow> string \<Rightarrow> bool" where
  "part_named r s \<longleftrightarrow> (case r of None \<Rightarrow> False | Some x \<Rightarrow> ref_name x = Some s)"

subsection \<open>Text content, as the specification words it\<close>

text \<open>
  Trimming, written from the code points: the white-space characters are
  U+0009 to U+000D, U+0020 and U+00A0; a trimmed string has lost the white
  space before its first and after its last other character.
\<close>

definition white_space_code :: "nat \<Rightarrow> bool" where
  "white_space_code n \<longleftrightarrow> n \<in> set [9, 10, 11, 12, 13, 32, 160]"

fun strip_leading :: "string \<Rightarrow> string" where
  "strip_leading [] = []"
| "strip_leading (c # cs) = (if white_space_code (of_char c) then strip_leading cs else c # cs)"

fun strip_trailing :: "string \<Rightarrow> string" where
  "strip_trailing [] = []"
| "strip_trailing (c # cs) =
     (case strip_trailing cs of
        [] \<Rightarrow> if white_space_code (of_char c) then [] else [c]
      | r # rs \<Rightarrow> c # r # rs)"

definition trimmed :: "string \<Rightarrow> string" where
  "trimmed s = strip_trailing (strip_leading s)"

text \<open>
  What one child contributes: a literal-text child its trimmed value, a string
  literal inside an expression container its value, every other child
  nothing.
\<close>

definition literal_piece :: "JSXChild \<Rightarrow> string option" where
  "literal_piece child =
     (if child_type child = ''JSXText'' then map_option trimmed (child_value child)
      else if child_type child = ''JSXExpressionContainer'' then
        (case child_expression child of
           None \<Rightarrow> None
         | Some e \<Rightarrow> if expr_type e = ''StringLiteral'' then expr_value e else None)
      else None)"

text \<open>The non-empty pieces, in order, with a single space between two of them.\<close>

fun join_pieces :: "string option list \<Rightarrow> string" where
  "join_pieces [] = []"
| "join_pieces (None # ps) = join_pieces ps"
| "join_pieces (Some p # ps) =
     (if p = [] then join_pieces ps
      else if join_pieces ps = [] then p
      else p @ '' '' @ join_pieces ps)"

definition text_content_spec :: "JSXChild list \<Rightarrow> string" where
  "text_content_spec cs = trimmed (join_pieces (map literal_piece cs))"

subsection \<open>Serialization, as the specification words it\<close>

text \<open>
  The six facets in their fixed order, what each one emits when it produces
  output, and the serialized string: the outputs of the facets that produce
  one, in that order, joined by single spaces after one leading space, or the
  empty string when there is none.
\<close>

datatype facet = FacetId | FacetName | FacetPath | FacetLine | FacetFile | FacetContent

definition facet_order :: "facet list" where
  "facet_order = [FacetId, FacetName, FacetPath, FacetLine, FacetFile, FacetContent]"

fun facet_output :: "host \<Rightarrow> GhostmarkOptions \<Rightarrow> AnnotationData \<Rightarrow> facet \<Rightarrow> string option" where
  \<open>facet_output h options d FacetId =
     (if includeId options then
        Some (''data-'' @ tagPrefix options @ ''-id="'' @ filePath d @ '':''
              @ string_of_nat (line d) @ '':'' @ string_of_nat (col d) @ ''"'')
      else None)\<close>
| \<open>facet_output h options d FacetName =
     (if includeName options then
        Some (''data-'' @ tagPrefix options @ ''-name="'' @ elementName d @ ''"'')
      else None)\<close>
| \<open>facet_output h options d FacetPath =
     (if includePath options then
        Some (''data-'' @ tagPrefix options @ ''-path="'' @ filePath d @ ''"'')
      else None)\<close>
| \<open>facet_output h options d FacetLine =
     (if includeLine options then
        Some (''data-'' @ tagPrefix options @ ''-line="'' @ string_of_nat (line d) @ ''"'')
      else None)\<close>
| \<open>facet_output h options d FacetFile =
     (if includeFile options then
        Some (''data-'' @ tagPrefix options @ ''-file="'' @ fileName d @ ''"'')
      else None)\<close>
| \<open>facet_output h options d FacetContent =
     (if includeContent options \<and> content_keys (content d) > 0 then
        Some (''data-'' @ tagPrefix options @ ''-content="''
              @ encodeURIComponent h (JSON_stringify h (content d)) @ ''"'')
      else None)\<close>

definition serialize_spec :: "host \<Rightarrow> GhostmarkOptions \<Rightarrow> AnnotationData \<Rightarrow> string" where
  "serialize_spec h options d =
     (let present = List.map_filter (facet_output h options d) facet_order
      in if present = [] then [] else '' '' @ join '' '' present)"

subsection \<open>Static content of an element\<close>

text \<open>
  A literal text child is literal text or a string literal in an expression
  container. A literal-string attribute \<open>k\<close> is an attribute named \<open>k\<close> whose
  value is a string literal, directly or in an expression container. An
  attribute list has a content attribute when one of its members starts with
  \<open>data-<prefix>-content="\<close>.
\<close>

definition literal_text_child :: "JSXChild \<Rightarrow> bool" where
  "literal_text_child c \<longleftrightarrow>
     child_type c = ''JSXText''
     \<or> (child_type c = ''JSXExpressionContainer''
        \<and> (case child_expression c of None \<Rightarrow> False | Some e \<Rightarrow> expr_type e = ''StringLiteral''))"

definition literal_string_attribute :: "string \<Rightarrow> JSXAttribute \<Rightarrow> bool" where
  "literal_string_attribute k a \<longleftrightarrow>
     attr_type a = ''JSXAttribute'' \<and> attr_name a = Some k
     \<and> (case attr_value a of
          None \<Rightarrow> False
        | Some v \<Rightarrow>
            val_type v = ''StringLiteral''
            \<or> (val_type v = ''JSXExpressionContainer''
               \<and> (case val_expression v of None \<Rightarrow> False | Some e \<Rightarrow> expr_type e = ''StringLiteral'')))"

definition content_attribute_prefix :: "GhostmarkOptions \<Rightarrow> string" where
  \<open>content_attribute_prefix options = ''data-'' @ tagPrefix options @ ''-content="''\<close>

definition has_content_attribute :: "GhostmarkOptions \<Rightarrow> string list \<Rightarrow> bool" where
  "has_content_attribute options attrs =
     list_ex (\<lambda>a. take (length (content_attribute_prefix options)) a = content_attribute_prefix options) attrs"

subsection \<open>Traversal, as the specification words it\<close>

text \<open>
  The text of an enclosing element, in the words of the specification; there
  is none while no element encloses the tag.
\<close>

definition text_of_enclosing :: "JSXElement option \<Rightarrow> string" where
  "text_of_enclosing enclosing =
     (case enclosing of
        None \<Rightarrow> []
      | Some el \<Rightarrow> (case children el of None \<Rightarrow> [] | Some cs \<Rightarrow> text_content_spec cs))"

text \<open>
  What the traversal does on entering an opening tag, given the enclosing
  element: classify the tag; a skipped tag with a resolved name increments the
  skipped counter; otherwise the content is extracted against the enclosing
  element, the descriptor is built and serialized, and a non-empty string is
  registered at the resolved offset and counted.
\<close>

definition annotate_nearest ::
  "host \<Rightarrow> GhostmarkOptions \<Rightarrow> string \<Rightarrow> string \<Rightarrow> JSXElement option \<Rightarrow> walk_state
     \<Rightarrow> JSXNode \<Rightarrow> walk_state" where
  "annotate_nearest h options path file enclosing st jsxNode =
     (let resolved = extractElementName jsxNode
      in if shouldSkipElement resolved options then
           (case resolved of
              None \<Rightarrow> st
            | Some nm \<Rightarrow>
                if nm = [] then st
                else st\<lparr> stats := (stats st)\<lparr> skippedElements := Suc (skippedElements (stats st)) \<rparr> \<rparr>)
         else
           (let descriptor =
                  \<lparr> elementName = (case resolved of None \<Rightarrow> ''null'' | Some nm \<Rightarrow> nm),
                    filePath = path, fileName = file,
                    line = (case loc jsxNode of
                              None \<Rightarrow> 0
                            | Some lc \<Rightarrow> (case loc_start lc of None \<Rightarrow> 0 | Some s \<Rightarrow> loc_line s)),
                    col = (case loc jsxNode of
                             None \<Rightarrow> 0
                           | Some lc \<Rightarrow> (case loc_start lc of None \<Rightarrow> 0 | Some s \<Rightarrow> loc_column s)),
                    content = buildContentObject (text_of_enclosing enclosing)
                                (extractElementAttributes (attributes jsxNode)) \<rparr>;
                serialized = buildDataAttributes h options descriptor
            in if serialized = [] then st
               else st\<lparr> magicString := magicString st @ [(getInsertPosition jsxNode, serialized)],
                       changedElementsCount := Suc (changedElementsCount st) \<rparr>))"

text \<open>
  The traversal: a full element is the enclosing element of everything below
  it, its own opening tag included; outside its subtree the enclosing element
  is the one of before (or none).
\<close>

fun walk_nearest ::
  "host \<Rightarrow> GhostmarkOptions \<Rightarrow> string \<Rightarrow> string \<Rightarrow> JSXElement option \<Rightarrow> walk_state
     \<Rightarrow> node \<Rightarrow> walk_state"
and walk_nearest_nodes ::
  "host \<Rightarrow> GhostmarkOptions \<Rightarrow> string \<Rightarrow> string \<Rightarrow> JSXElement option \<Rightarrow> walk_state
     \<Rightarrow> node list \<Rightarrow> walk_state" where
  "walk_nearest h options path file enclosing st (ElementNode opening closing kids) =
     (let inside = Some \<lparr> element_type = ''JSXElement'', children = Some (map as_child kids) \<rparr>;
          s1 = walk_nearest h options path file inside st opening;
          s2 = (case closing of None \<Rightarrow> s1 | Some c \<Rightarrow> walk_nearest h options path file inside s1 c)
      in walk_nearest_nodes h options path file inside s2 kids)"
| "walk_nearest h options path file enclosing st (OpeningNode jsxNode subs) =
     walk_nearest_nodes h options path file enclosing
       (annotate_nearest h options path file enclosing st jsxNode) subs"
| "walk_nearest h options path file enclosing st (TextNode v) = st"
| "walk_nearest h options path file enclosing st (ContainerNode e) =
     walk_nearest h options path file enclosing st e"
| "walk_nearest h options path file enclosing st (StringLiteralNode v) = st"
| "walk_nearest h options path file enclosing st (OtherNode t subs) =
     walk_nearest_nodes h options path file enclosing st subs"
| "walk_nearest_nodes h options path file enclosing st [] = st"
| "walk_nearest_nodes h options path file enclosing st (n # ns) =
     walk_nearest_nodes h options path file enclosing
       (walk_nearest h options path file enclosing st n) ns"

text \<open>
  A tree as the parser builds it: an opening tag occurs only as the
  \<open>openingElement\<close> of a full element, the first sub-node the walker visits
  there. The flag tells whether the node stands in that position.
\<close>

fun shaped :: "bool \<Rightarrow> node \<Rightarrow> bool" and shaped_nodes :: "node list \<Rightarrow> bool" where
  "shaped b (ElementNode opening closing kids) =
     (shaped True opening
      \<and> (case closing of None \<Rightarrow> True | Some c \<Rightarrow> shaped False c)
      \<and> shaped_nodes kids)"
| "shaped b (OpeningNode jsxNode subs) = (b \<and> shaped_nodes subs)"
| "shaped b (TextNode v) = True"
| "shaped b (ContainerNode e) = shaped False e"
| "shaped b (StringLiteralNode v) = True"
| "shaped b (OtherNode t subs) = shaped_nodes subs"
| "shaped_nodes [] = True"
| "shaped_nodes (n # ns) = (shaped False n \<and> shaped_nodes ns)"

definition parser_shaped :: "node \<Rightarrow> bool" where
  "parser_shaped n = shaped False n"

text \<open>A traversal state without its enclosing-element context.\<close>

definition forget :: "walk_state \<Rightarrow> walk_state" where
  "forget st = st\<lparr> currentElement := None \<rparr>"

subsection \<open>The attribute string of one opening tag\<close>


section \<open>Example inputs\<close>

text \<open>
  A platform for the examples: path functions for POSIX paths, percent
  encoding of ASCII text, JSON for strings that need no escape, and an edit
  buffer that puts each insertion to the left of the character at its offset,
  in the order of registration.
\<close>

definition example_basename :: "string \<Rightarrow> string" where
  "example_basename p = rev (takeWhile (\<lambda>c. c \<noteq> CHR ''/'') (rev p))"

definition example_extname :: "string \<Rightarrow> string" where
  "example_extname p =
     (let b = example_basename p
      in if CHR ''.'' \<in> set (tl b) then CHR ''.'' # rev (takeWhile (\<lambda>c. c \<noteq> CHR ''.'') (rev b))
         else [])"

definition example_relative :: "string \<Rightarrow> string \<Rightarrow> string" where
  "example_relative dir p =
     (if take (Suc (length dir)) p = dir @ ''/'' then drop (Suc (length dir)) p else p)"

definition unreserved :: "char \<Rightarrow> bool" where
  "unreserved c \<longleftrightarrow>
     c \<in> set (''ABCDEFGHIJKLMNOPQRSTUVWXYZabcdefghijklmnopqrstuvwxyz0123456789-_.!~*()'' @ [CHR 0x27])"

definition hex_digit :: "nat \<Rightarrow> char" where
  "hex_digit n = ''0123456789ABCDEF'' ! (n mod 16)"

definition example_encode :: "string \<Rightarrow> string" where
  "example_encode s =
     concat (map (\<lambda>c. if unreserved c then [c]
                       else [CHR ''%'', hex_digit (of_char c div 16), hex_digit (of_char c mod 16)]) s)"

definition example_field :: "string \<Rightarrow> string option \<Rightarrow> string list" where
  \<open>example_field k v = (case v of None \<Rightarrow> [] | Some s \<Rightarrow> [''"'' @ k @ ''":"'' @ s @ ''"''])\<close>

definition example_stringify :: "ElementContent \<Rightarrow> string" where
  "example_stringify c =
     ''{'' @ join '','' (example_field ''text'' (content_text c)
                        @ example_field ''placeholder'' (content_placeholder c)
                        @ example_field ''className'' (content_className c)) @ ''}''"

definition insertions_at :: "(nat \<times> string) list \<Rightarrow> nat \<Rightarrow> string" where
  "insertions_at ins i = concat (map snd (filter (\<lambda>p. fst p = i) ins))"

fun splice :: "(nat \<times> string) list \<Rightarrow> nat \<Rightarrow> string \<Rightarrow> string" where
  "splice ins i [] = insertions_at ins i"
| "splice ins i (c # cs) = insertions_at ins i @ c # splice ins (Suc i) cs"

text \<open>The options that \<open>ghostmark()\<close> resolves when none are given.\<close>

definition default_options :: GhostmarkOptions where
  "default_options = \<lparr> includeId = True, includeName = True, includePath = True,
     includeLine = True, includeFile = True, includeContent = True, tagPrefix = ''gm'',
     include_list = [''.jsx'', ''.tsx''], exclude_list = [''node_modules''],
     useRelativePath = True, debug = False, filter3DElements = True \<rparr>"

text \<open>The opening tag of \<open><Motion.div>\<close>, whose name ends at offset 11.\<close>

definition dotted_tag :: JSXNode where
  "dotted_tag = \<lparr> node_type = ''JSXOpeningElement'',
     name = \<lparr> name_type = ''JSXMemberExpression'', name_name = None,
              name_object = Some \<lparr> ref_name = Some ''Motion'' \<rparr>,
              name_property = Some \<lparr> ref_name = Some ''div'' \<rparr>, name_end = Some 11 \<rparr>,
     loc = None, attributes = [], typeParameters = None \<rparr>"

text \<open>
  The opening tag of \<open><A.B.C/>\<close>: the object of the name is the member
  expression \<open>A.B\<close>, a node without a \<open>name\<close>; the name ends at offset 6.
\<close>

definition nested_member_tag :: JSXNode where
  "nested_member_tag = \<lparr> node_type = ''JSXOpeningElement'',
     name = \<lparr> name_type = ''JSXMemberExpression'', name_name = None,
              name_object = Some \<lparr> ref_name = None \<rparr>,
              name_property = Some \<lparr> ref_name = Some ''C'' \<rparr>, name_end = Some 6 \<rparr>,
     loc = None, attributes = [], typeParameters = None \<rparr>"

text \<open>
  The opening tag of \<open><Select<Item>>\<close>: the name ends at offset 7, the
  type-parameter list at offset 13.
\<close>

definition generic_tag :: JSXNode where
  "generic_tag = \<lparr> node_type = ''JSXOpeningElement'',
     name = \<lparr> name_type = ''JSXIdentifier'', name_name = Some ''Select'',
              name_object = None, name_property = None, name_end = Some 7 \<rparr>,
     loc = None, attributes = [],
     typeParameters = Some \<lparr> tp_end = Some 13 \<rparr> \<rparr>"

text \<open>
  An opening tag with an identifier name, no attributes and no type
  parameters: the name, the offset where it ends, and the line and column
  where the tag starts.
\<close>

definition simple_tag :: "string \<Rightarrow> nat option \<Rightarrow> nat \<Rightarrow> nat \<Rightarrow> JSXNode" where
  "simple_tag nm e l c = \<lparr> node_type = ''JSXOpeningElement'',
     name = \<lparr> name_type = ''JSXIdentifier'', name_name = Some nm,
              name_object = None, name_property = None, name_end = e \<rparr>,
     loc = Some \<lparr> loc_start = Some \<lparr> loc_line = l, loc_column = c \<rparr> \<rparr>,
     attributes = [], typeParameters = None \<rparr>"

definition identifier_node :: node where
  "identifier_node = OtherNode ''JSXIdentifier'' []"

definition closing_node :: node where
  "closing_node = OtherNode ''JSXClosingElement'' [identifier_node]"

text \<open>A file whose only statement is the given expression.\<close>

definition program :: "node \<Rightarrow> node" where
  "program e = OtherNode ''File'' [OtherNode ''Program'' [OtherNode ''ExpressionStatement'' [e]]]"

text \<open>\<open><Button onClick={fn}>Click me</Button>\<close>\<close>

definition button_source :: string where
  "button_source = ''<Button onClick={fn}>Click me</Button>''"

definition button_tag :: JSXNode where
  "button_tag = (simple_tag ''Button'' (Some 7) 1 0)
     \<lparr> attributes := [\<lparr> attr_type = ''JSXAttribute'', attr_name = Some ''onClick'',
          attr_value = Some \<lparr> val_type = ''JSXExpressionContainer'', val_value = None,
            val_expression = Some \<lparr> expr_type = ''Identifier'', expr_value = None \<rparr> \<rparr> \<rparr>] \<rparr>"

definition button_element :: node where
  "button_element =
     ElementNode
       (OpeningNode button_tag
          [identifier_node,
           OtherNode ''JSXAttribute'' [identifier_node, ContainerNode (OtherNode ''Identifier'' [])]])
       (Some closing_node)
       [TextNode (Some ''Click me'')]"

text \<open>The descriptor of the example in the specification: line 6, column 8.\<close>

definition button_data :: AnnotationData where
  "button_data = \<lparr> elementName = ''Button'', filePath = ''src/App.tsx'', fileName = ''App.tsx'',
     line = 6, col = 8,
     content = \<lparr> content_text = Some ''Click me'', content_placeholder = None,
                 content_className = None \<rparr> \<rparr>"

text \<open>\<open><Fragment>hi</Fragment>\<close>\<close>

definition fragment_source :: string where
  "fragment_source = ''<Fragment>hi</Fragment>''"

definition fragment_tag :: JSXNode where
  "fragment_tag = simple_tag ''Fragment'' (Some 9) 1 0"

definition fragment_element :: node where
  "fragment_element =
     ElementNode (OpeningNode fragment_tag [identifier_node]) (Some closing_node)
       [TextNode (Some ''hi'')]"



text \<open>\<open><ul><li>one</li><li>two</li></ul>\<close>\<close>

definition nested_source :: string where
  "nested_source = ''<ul><li>one</li><li>two</li></ul>''"

definition li_one_element :: node where
  "li_one_element =
     ElementNode (OpeningNode (simple_tag ''li'' (Some 7) 1 4) [identifier_node])
       (Some closing_node) [TextNode (Some ''one'')]"

definition li_two_element :: node where
  "li_two_element =
     ElementNode (OpeningNode (simple_tag ''li'' (Some 19) 1 16) [identifier_node])
       (Some closing_node) [TextNode (Some ''two'')]"

definition ul_element :: node where
  "ul_element =
     ElementNode (OpeningNode (simple_tag ''ul'' (Some 3) 1 0) [identifier_node])
       (Some closing_node) [li_one_element, li_two_element]"

text \<open>
  The children of \<open><p>(LF)  Hello (TAB){" - "}{name}  (NBSP)world(NBSP){"! "}</p>\<close>,
  where the fourth child is the text of two spaces: literal text with white
  space around it, string literals in expression containers, a dynamic
  expression and a text of white space only.
\<close>

definition mixed_children :: "JSXChild list" where
  "mixed_children =
     [\<lparr> child_type = ''JSXText'', child_value = Some (CHR 0x0A # ''  Hello '' @ [CHR 0x09]),
        child_expression = None \<rparr>,
      \<lparr> child_type = ''JSXExpressionContainer'', child_value = None,
        child_expression = Some \<lparr> expr_type = ''StringLiteral'', expr_value = Some '' - '' \<rparr> \<rparr>,
      \<lparr> child_type = ''JSXExpressionContainer'', child_value = None,
        child_expression = Some \<lparr> expr_type = ''Identifier'', expr_value = None \<rparr> \<rparr>,
      \<lparr> child_type = ''JSXText'', child_value = Some ''  '', child_expression = None \<rparr>,
      \<lparr> child_type = ''JSXText'', child_value = Some (CHR 0xA0 # ''world'' @ [CHR 0xA0]),
        child_expression = None \<rparr>,
      \<lparr> child_type = ''JSXExpressionContainer'', child_value = None,
        child_expression = Some \<lparr> expr_type = ''StringLiteral'', expr_value = Some ''! '' \<rparr> \<rparr>]"

text \<open>\<open><Spinner size={n}>{label}</Spinner>\<close>: nothing static in it.\<close>

definition spinner_attributes :: "JSXAttribute list" where
  "spinner_attributes =
     [\<lparr> attr_type = ''JSXAttribute'', attr_name = Some ''size'',
        attr_value = Some \<lparr> val_type = ''JSXExpressionContainer'', val_value = None,
          val_expression = Some \<lparr> expr_type = ''Identifier'', expr_value = None \<rparr> \<rparr> \<rparr>]"

definition spinner_element :: JSXElement where
  "spinner_element = \<lparr> element_type = ''JSXElement'',
     children = Some [\<lparr> child_type = ''JSXExpressionContainer'', child_value = None,
       child_expression = Some \<lparr> expr_type = ''Identifier'', expr_value = None \<rparr> \<rparr>] \<rparr>"

text \<open>
  The example parser knows the sources above and throws on any other text.
\<close>

definition example_parse :: "string \<Rightarrow> node option" where
  "example_parse code =
     (if code = button_source then Some (program button_element)
      else if code = fragment_source then Some (program fragment_element)
      else if code = nested_source then Some (program ul_element)
      else None)"

definition example_toString :: "string \<Rightarrow> (nat \<times> string) list \<Rightarrow> string" where
  "example_toString code ins = splice ins 0 code"

definition example_host :: host where
  "example_host = \<lparr> parse = example_parse, extname = example_extname,
     relative = example_relative, basename = example_basename, cwd = ''/app'',
     encodeURIComponent = example_encode, JSON_stringify = example_stringify,
     magic_toString = example_toString \<rparr>"

definition id_only_options :: GhostmarkOptions where
  "id_only_options = default_options \<lparr> includeName := False, includePath := False,
     includeLine := False, includeFile := False, includeContent := False \<rparr>"

definition name_content_options :: GhostmarkOptions where
  "name_content_options = default_options \<lparr> includeId := False, includePath := False,
     includeLine := False, includeFile := False \<rparr>"

definition no_facet_options :: GhostmarkOptions where
  "no_facet_options = id_only_options \<lparr> includeId := False \<rparr>"

definition zero_stats :: ProcessingStats where
  "zero_stats = \<lparr> totalFiles = 0, processedFiles = 0, totalElements = 0, skippedElements = 0 \<rparr>"

definition idle_state :: walk_state where
  "idle_state = \<lparr> currentElement = None, magicString = [], changedElementsCount = 0,
     stats = zero_stats \<rparr>"

section \<open>Properties\<close>

text \<open>The definitions that the examples unfold.\<close>

lemmas example_defs =
  example_host_def example_parse_def example_toString_def example_extname_def
  example_basename_def example_relative_def example_encode_def example_stringify_def
  example_field_def unreserved_def hex_digit_def insertions_at_def
  button_source_def button_tag_def button_element_def button_data_def
  fragment_source_def fragment_tag_def fragment_element_def
  nested_source_def li_one_element_def li_two_element_def ul_element_def
  simple_tag_def identifier_node_def closing_node_def program_def
  default_options_def id_only_options_def zero_stats_def idle_state_def

lemmas model_defs =
  transform_def shouldProcessFile_def enter_opening_def extractElementName_def
  shouldSkipElement_def is3DElement_def THREE_D_ELEMENTS_def truthy_def
  extractElementAttributes_def attribute_step_def extractTextContent_def child_text_def
  trim_def isWhiteSpace_def buildContentObject_def truthy_field_def content_keys_def
  buildDataAttributes_def pushed_attributes_def getInsertPosition_def as_expression_def
  string_of_nat.simps digit_char_def Let_def

subsection \<open>Offset resolver\<close>

text \<open>
  C1. For an opening tag with a type-parameter list that ends at offset \<open>K\<close>
  the insertion offset is \<open>K\<close>, whatever the end of the name; with no such
  end offset and a name that ends at offset \<open>N\<close> it is \<open>N\<close>. The handler
  registers at most one insertion for the tag, and registers it at that
  offset.
\<close>

theorem getInsertPosition_offset:
  "(typeParameters n = Some tp \<and> tp_end tp = Some K \<longrightarrow> getInsertPosition n = K) \<and>
   ((case typeParameters n of None \<Rightarrow> None | Some tp' \<Rightarrow> tp_end tp') = None
      \<and> name_end (name n) = Some N \<longrightarrow> getInsertPosition n = N) \<and>
   (magicString (enter_opening h options path file st n) = magicString st
    \<or> (\<exists>t. magicString (enter_opening h options path file st n)
             = magicString st @ [(getInsertPosition n, t)]))"
  by (simp add: getInsertPosition_def enter_opening_def Let_def)

theorem getInsertPosition_offset_witness:
  "typeParameters generic_tag = Some \<lparr> tp_end = Some 13 \<rparr>
   \<and> name_end (name generic_tag) = Some 7
   \<and> getInsertPosition generic_tag = 13
   \<and> typeParameters dotted_tag = None \<and> name_end (name dotted_tag) = Some 11
   \<and> getInsertPosition dotted_tag = 11"
  using getInsertPosition_offset [of generic_tag "\<lparr> tp_end = Some 13 \<rparr>" 13 7]
        getInsertPosition_offset [of dotted_tag _ _ 11]
  by (simp add: generic_tag_def dotted_tag_def)

subsection \<open>Names of member expressions\<close>

lemma no_dot_in_3D: "\<forall>x \<in> set THREE_D_ELEMENTS. CHR ''.'' \<notin> set x"
  by (simp add: THREE_D_ELEMENTS_def)

lemma dotted_not_3D: "\<not> is3DElement (a @ ''.'' @ b)"
proof
  assume "is3DElement (a @ ''.'' @ b)"
  then have "a @ ''.'' @ b \<in> set THREE_D_ELEMENTS" by (simp add: is3DElement_def)
  with no_dot_in_3D have "CHR ''.'' \<notin> set (a @ ''.'' @ b)" by blast
  then show False by simp
qed

lemma dotted_neq: "CHR ''.'' \<notin> set s \<Longrightarrow> a @ ''.'' @ b \<noteq> s"
  by auto

text \<open>
  C10. For an opening tag whose name is a member expression,
  \<open>extractElementName\<close> returns \<open><object>.<property>\<close>, a missing part being the
  empty string: \<open>.<property>\<close> without an object name, \<open><object>.\<close> without a
  property name, \<open>.\<close> without both. The result is never \<open>null\<close> and never
  empty, and such a tag is skipped only when its name is \<open>React.Fragment\<close>,
  never for lack of a name.
\<close>

theorem member_expression_name:
  assumes "name_type (name n) = ''JSXMemberExpression''"
  shows "(part_named (name_object (name n)) a \<and> part_named (name_property (name n)) b
           \<longrightarrow> extractElementName n = Some (a @ ''.'' @ b))
    \<and> (part_missing (name_object (name n)) \<and> part_named (name_property (name n)) b
           \<longrightarrow> extractElementName n = Some (''.'' @ b))
    \<and> (part_named (name_object (name n)) a \<and> part_missing (name_property (name n))
           \<longrightarrow> extractElementName n = Some (a @ ''.''))
    \<and> (part_missing (name_object (name n)) \<and> part_missing (name_property (name n))
           \<longrightarrow> extractElementName n = Some ''.'')
    \<and> extractElementName n \<noteq> None
    \<and> extractElementName n \<noteq> Some []
    \<and> (shouldSkipElement (extractElementName n) options
         \<longleftrightarrow> extractElementName n = Some ''React.Fragment'')"
proof -
  let ?a = "name_or_empty (name_object (name n))"
  let ?b = "name_or_empty (name_property (name n))"
  have 1: "extractElementName n = Some (?a @ ''.'' @ ?b)"
    using assms by (simp add: extractElementName_def Let_def)
  have named: "part_named r s \<Longrightarrow> name_or_empty r = s" for r s
    by (auto simp: part_named_def name_or_empty_def split: option.splits)
  have missing: "part_missing r \<Longrightarrow> name_or_empty r = []" for r
    by (auto simp: part_missing_def name_or_empty_def split: option.splits)
  have 2: "part_named (name_object (name n)) a \<and> part_named (name_property (name n)) b
           \<longrightarrow> extractElementName n = Some (a @ ''.'' @ b)"
    by (auto simp: 1 dest!: named missing)
  have 3: "part_missing (name_object (name n)) \<and> part_named (name_property (name n)) b
           \<longrightarrow> extractElementName n = Some (''.'' @ b)"
    by (auto simp: 1 dest!: named missing)
  have 4: "part_named (name_object (name n)) a \<and> part_missing (name_property (name n))
           \<longrightarrow> extractElementName n = Some (a @ ''.'')"
    by (auto simp: 1 dest!: named missing)
  have 5: "part_missing (name_object (name n)) \<and> part_missing (name_property (name n))
           \<longrightarrow> extractElementName n = Some ''.''"
    by (auto simp: 1 dest!: named missing)
  have 6: "extractElementName n \<noteq> None" and 7: "extractElementName n \<noteq> Some []"
    using 1 by simp_all
  have "?a @ ''.'' @ ?b \<noteq> ''Fragment''"
    by (rule dotted_neq) simp
  then have 8: "shouldSkipElement (extractElementName n) options
                  \<longleftrightarrow> extractElementName n = Some ''React.Fragment''"
    unfolding 1 using dotted_not_3D [of ?a ?b]
    by (simp add: shouldSkipElement_def truthy_def)
  from 2 3 4 5 6 7 8 show ?thesis by blast
qed

theorem member_expression_name_witness:
  "name_type (name nested_member_tag) = ''JSXMemberExpression''
   \<and> part_missing (name_object (name nested_member_tag))
   \<and> part_named (name_property (name nested_member_tag)) ''C''
   \<and> extractElementName nested_member_tag = Some ''.C''
   \<and> \<not> shouldSkipElement (extractElementName nested_member_tag) default_options
   \<and> name_type (name dotted_tag) = ''JSXMemberExpression''
   \<and> part_named (name_object (name dotted_tag)) ''Motion''
   \<and> part_named (name_property (name dotted_tag)) ''div''
   \<and> extractElementName dotted_tag = Some ''Motion.div''"
proof -
  have h: "name_type (name nested_member_tag) = ''JSXMemberExpression''"
    and o: "part_missing (name_object (name nested_member_tag))"
    and p: "part_named (name_property (name nested_member_tag)) ''C''"
    by (simp_all add: nested_member_tag_def part_missing_def part_named_def)
  note m = member_expression_name [OF h, of _ "''C''" default_options]
  from m o p have e: "extractElementName nested_member_tag = Some ''.C''"
    by simp
  from m have "shouldSkipElement (extractElementName nested_member_tag) default_options
         \<longleftrightarrow> extractElementName nested_member_tag = Some ''React.Fragment''"
    by blast
  then have s: "\<not> shouldSkipElement (extractElementName nested_member_tag) default_options"
    by (simp add: e)
  have h': "name_type (name dotted_tag) = ''JSXMemberExpression''"
    and o': "part_named (name_object (name dotted_tag)) ''Motion''"
    and p': "part_named (name_property (name dotted_tag)) ''div''"
    by (simp_all add: dotted_tag_def part_named_def)
  from member_expression_name [OF h', of "''Motion''" "''div''" default_options] o' p'
  have e': "extractElementName dotted_tag = Some ''Motion.div''"
    by simp
  from h o p e s h' o' p' e' show ?thesis by simp
qed

subsection \<open>Text content\<close>

lemma isWhiteSpace_code: "isWhiteSpace c \<longleftrightarrow> white_space_code (of_char c)"
proof -
  have "set [9, 10, 11, 12, 13, 32, 160 :: nat]
      = of_char ` set [CHR 0x09, CHR 0x0A, CHR 0x0B, CHR 0x0C, CHR 0x0D, CHR '' '', CHR 0xA0]"
    by simp
  moreover have "inj (of_char :: char \<Rightarrow> nat)"
    by (rule injI) simp
  ultimately show ?thesis
    unfolding isWhiteSpace_def white_space_code_def by (simp only: inj_image_mem_iff)
qed

lemma isWhiteSpace_fun: "isWhiteSpace = (\<lambda>c. white_space_code (of_char c))"
  by (rule ext) (rule isWhiteSpace_code)

lemma strip_leading_dropWhile:
  "strip_leading s = dropWhile (\<lambda>c. white_space_code (of_char c)) s"
  by (induction s) simp_all

lemma strip_trailing_empty:
  "strip_trailing s = [] \<longleftrightarrow> (\<forall>c \<in> set s. white_space_code (of_char c))"
  by (induction s) (auto split: list.splits)

lemma strip_trailing_dropWhile:
  "strip_trailing s = rev (dropWhile (\<lambda>c. white_space_code (of_char c)) (rev s))"
proof (induction s)
  case Nil
  then show ?case by simp
next
  case (Cons c cs)
  let ?P = "\<lambda>c. white_space_code (of_char c)"
  show ?case
  proof (cases "\<forall>x \<in> set cs. ?P x")
    case True
    then have e: "strip_trailing cs = []" by (simp add: strip_trailing_empty)
    from True have "dropWhile ?P (rev cs @ [c]) = dropWhile ?P [c]"
      by (simp add: dropWhile_append)
    then have "rev (dropWhile ?P (rev (c # cs))) = (if ?P c then [] else [c])"
      by simp
    moreover have "strip_trailing (c # cs) = (if ?P c then [] else [c])"
      using e by simp
    ultimately show ?thesis by simp
  next
    case False
    then have e: "strip_trailing cs \<noteq> []" by (simp add: strip_trailing_empty)
    from False have "dropWhile ?P (rev cs @ [c]) = dropWhile ?P (rev cs) @ [c]"
      by (auto simp: dropWhile_append)
    then have "rev (dropWhile ?P (rev (c # cs))) = c # rev (dropWhile ?P (rev cs))"
      by simp
    moreover have "strip_trailing (c # cs) = c # strip_trailing cs"
      using e by (simp split: list.splits)
    ultimately show ?thesis using Cons.IH by simp
  qed
qed

lemma trim_trimmed: "trim s = trimmed s"
  by (simp add: trim_def trimmed_def isWhiteSpace_fun strip_leading_dropWhile
      strip_trailing_dropWhile)

lemma child_text_piece: "child_text c = (case literal_piece c of None \<Rightarrow> [] | Some p \<Rightarrow> p)"
  by (simp add: child_text_def literal_piece_def trim_trimmed split: option.splits)

lemma join_Cons: "join sep (x # xs) = (if xs = [] then x else x @ sep @ join sep xs)"
  by (cases xs) simp_all

lemma join_nonempty: "xs \<noteq> [] \<Longrightarrow> \<forall>x \<in> set xs. x \<noteq> [] \<Longrightarrow> join sep xs \<noteq> []"
  by (cases xs) (simp_all add: join_Cons)

lemma join_filter_empty: "join sep (filter truthy xs) = [] \<longleftrightarrow> filter truthy xs = []"
proof
  assume j: "join sep (filter truthy xs) = []"
  show "filter truthy xs = []"
  proof (rule ccontr)
    assume ne: "filter truthy xs \<noteq> []"
    have "\<forall>x \<in> set (filter truthy xs). x \<noteq> []"
      by (simp add: truthy_def)
    with ne have "join sep (filter truthy xs) \<noteq> []"
      by (rule join_nonempty)
    with j show False by blast
  qed
next
  assume "filter truthy xs = []"
  then show "join sep (filter truthy xs) = []" by simp
qed

lemma join_pieces_eq:
  "join '' '' (filter truthy (map child_text cs)) = join_pieces (map literal_piece cs)"
proof (induction cs)
  case Nil
  then show ?case by simp
next
  case (Cons c cs)
  let ?rest = "filter truthy (map child_text cs)"
  show ?case
  proof (cases "literal_piece c")
    case None
    then have "child_text c = []" by (simp add: child_text_piece)
    with None Cons show ?thesis by (simp add: truthy_def)
  next
    case (Some p)
    then have ct: "child_text c = p" by (simp add: child_text_piece)
    show ?thesis
    proof (cases "p = []")
      case True
      with Some ct Cons show ?thesis by (simp add: truthy_def)
    next
      case False
      have e: "(join_pieces (map literal_piece cs) = []) = (?rest = [])"
        using join_filter_empty [of "'' ''" "map child_text cs"] Cons by simp
      have "join '' '' (filter truthy (map child_text (c # cs))) = join '' '' (p # ?rest)"
        using False ct by (simp add: truthy_def)
      also have "\<dots> = (if ?rest = [] then p else p @ '' '' @ join '' '' ?rest)"
        by (rule join_Cons)
      also have "\<dots> = join_pieces (map literal_piece (c # cs))"
      proof (cases "?rest = []")
        case True
        with e have "join_pieces (map literal_piece cs) = []" by blast
        with True False Some show ?thesis by simp
      next
        case r: False
        with e have "join_pieces (map literal_piece cs) \<noteq> []" by blast
        moreover have "join '' '' ?rest = join_pieces (map literal_piece cs)" by (rule Cons.IH)
        ultimately show ?thesis using r False Some by simp
      qed
      finally show ?thesis .
    qed
  qed
qed

text \<open>
  C8. The text extracted from an enclosing element with children \<open>cs\<close> is: the
  children in document order, a literal-text child contributing its trimmed
  value, a string literal in an expression container its value and any other
  child nothing; the non-empty pieces joined by single spaces; the result
  trimmed.
\<close>

theorem extractTextContent_spec:
  "extractTextContent (Some (el\<lparr> children := Some cs \<rparr>)) = text_content_spec cs"
  by (simp add: extractTextContent_def text_content_spec_def join_pieces_eq trim_trimmed)

theorem extractTextContent_spec_witness:
  "extractTextContent (Some \<lparr> element_type = ''JSXElement'', children = Some mixed_children \<rparr>)
     = ''Hello  -  world !''"
proof -
  have "text_content_spec mixed_children = ''Hello  -  world !''"
    by (simp add: text_content_spec_def mixed_children_def literal_piece_def trimmed_def
        white_space_code_def)
  with extractTextContent_spec
    [where el = "\<lparr> element_type = ''JSXElement'', children = Some mixed_children \<rparr>"
       and cs = mixed_children]
  show ?thesis by simp
qed

subsection \<open>Attribute serializer\<close>

lemma pushed_attributes_facets:
  "pushed_attributes h options d = List.map_filter (facet_output h options d) facet_order"
  by (simp add: pushed_attributes_def facet_order_def List.map_filter_def Let_def)

lemma join_blocks: "xs \<noteq> [] \<Longrightarrow> '' '' @ join '' '' xs = concat (map (\<lambda>a. '' '' @ a) xs)"
proof (induction xs)
  case Nil
  then show ?case by simp
next
  case (Cons x xs)
  then show ?case by (cases "xs = []") (simp_all add: join_Cons)
qed

lemma buildDataAttributes_blocks:
  "buildDataAttributes h options d = concat (map (\<lambda>a. '' '' @ a) (pushed_attributes h options d))"
proof (cases "pushed_attributes h options d = []")
  case True
  then show ?thesis by (simp add: buildDataAttributes_def)
next
  case False
  then show ?thesis using join_blocks [OF False] by (simp add: buildDataAttributes_def Let_def)
qed

lemma blocks_not_space:
  "\<forall>a \<in> set xs. a \<noteq> [] \<Longrightarrow> concat (map (\<lambda>a. '' '' @ a) xs) \<noteq> '' ''"
  by (cases xs) auto

lemma buildDataAttributes_not_space: "buildDataAttributes h options d \<noteq> '' ''"
proof -
  have "\<forall>a \<in> set (pushed_attributes h options d). a \<noteq> []"
    by (simp add: pushed_attributes_def Let_def)
  then show ?thesis
    unfolding buildDataAttributes_blocks by (rule blocks_not_space)
qed

text \<open>
  C6. Whatever the configuration and the descriptor, the attributes in the
  serialized string are those of the facets that produce output, in the fixed
  order identifier, name, path, line, file, content; a facet that produces
  none is left out. When no facet produces output the result is the empty
  string, and it is never a single space.
\<close>

theorem facet_order_fixed:
  "pushed_attributes h options d = List.map_filter (facet_output h options d) facet_order
   \<and> buildDataAttributes h options d = serialize_spec h options d
   \<and> ((\<forall>f \<in> set facet_order. facet_output h options d f = None)
        \<longrightarrow> buildDataAttributes h options d = [])
   \<and> buildDataAttributes h options d \<noteq> '' ''"
proof -
  have 1: "pushed_attributes h options d = List.map_filter (facet_output h options d) facet_order"
    by (rule pushed_attributes_facets)
  have 2: "buildDataAttributes h options d = serialize_spec h options d"
    by (simp add: buildDataAttributes_def serialize_spec_def 1 Let_def)
  have 3: "(\<forall>f \<in> set facet_order. facet_output h options d f = None)
        \<longrightarrow> buildDataAttributes h options d = []"
    by (simp add: buildDataAttributes_def 1 List.map_filter_def Let_def)
  from 1 2 3 buildDataAttributes_not_space show ?thesis by blast
qed

theorem facet_order_fixed_witness:
  "facet_output example_host no_facet_options button_data FacetId = None
   \<and> facet_output example_host no_facet_options button_data FacetName = None
   \<and> facet_output example_host no_facet_options button_data FacetPath = None
   \<and> facet_output example_host no_facet_options button_data FacetLine = None
   \<and> facet_output example_host no_facet_options button_data FacetFile = None
   \<and> facet_output example_host no_facet_options button_data FacetContent = None
   \<and> buildDataAttributes example_host no_facet_options button_data = []"
proof -
  have a: "\<forall>f \<in> set facet_order. facet_output example_host no_facet_options button_data f = None"
    by (simp add: facet_order_def no_facet_options_def id_only_options_def default_options_def)
  with facet_order_fixed [of example_host no_facet_options button_data]
  have "buildDataAttributes example_host no_facet_options button_data = []" by blast
  with a show ?thesis by (simp add: facet_order_def)
qed

text \<open>
  C5 (amended). For a configuration with prefix \<open>p\<close> the serialized block is,
  character for character, the concatenation of one segment per facet that
  produces output, in the fixed order, each segment being one space followed
  by \<open>data-<p>-id="<path>:<line>:<col>"\<close>, \<open>data-<p>-name="<name>"\<close>,
  \<open>data-<p>-path="<path>"\<close>, \<open>data-<p>-line="<line>"\<close>,
  \<open>data-<p>-file="<basename>"\<close> or \<open>data-<p>-content="<encoded JSON>"\<close>;
  nothing follows the last attribute.
\<close>

theorem attribute_block_format:
  \<open>buildDataAttributes h options d =
     (if includeId options then
        '' data-'' @ tagPrefix options @ ''-id="'' @ filePath d @ '':''
          @ string_of_nat (line d) @ '':'' @ string_of_nat (col d) @ ''"''
      else [])
     @ (if includeName options then
          '' data-'' @ tagPrefix options @ ''-name="'' @ elementName d @ ''"''
        else [])
     @ (if includePath options then
          '' data-'' @ tagPrefix options @ ''-path="'' @ filePath d @ ''"''
        else [])
     @ (if includeLine options then
          '' data-'' @ tagPrefix options @ ''-line="'' @ string_of_nat (line d) @ ''"''
        else [])
     @ (if includeFile options then
          '' data-'' @ tagPrefix options @ ''-file="'' @ fileName d @ ''"''
        else [])
     @ (if includeContent options \<and> content_keys (content d) > 0 then
          '' data-'' @ tagPrefix options @ ''-content="''
            @ encodeURIComponent h (JSON_stringify h (content d)) @ ''"''
        else [])\<close>
  unfolding buildDataAttributes_blocks
  by (simp add: pushed_attributes_def Let_def)

theorem attribute_block_format_witness:
  \<open>buildDataAttributes example_host default_options button_data =
     '' data-gm-id="src/App.tsx:6:8" data-gm-name="Button" data-gm-path="src/App.tsx" data-gm-line="6" data-gm-file="App.tsx" data-gm-content="%7B%22text%22%3A%22Click%20me%22%7D"''\<close>
  unfolding attribute_block_format [of example_host default_options button_data]
  by (simp add: example_defs content_keys_def string_of_nat.simps digit_char_def)

theorem attribute_block_format_counterexample:
  \<open>tagPrefix id_only_options = ''gm''
   \<and> buildDataAttributes example_host id_only_options button_data
       = '' data-gm-id="src/App.tsx:6:8"''
   \<and> buildDataAttributes example_host id_only_options button_data
       \<noteq> '' gm-id="src/App.tsx:6:8"''\<close>
  by (simp add: example_defs model_defs)

subsection \<open>Content presence\<close>

lemma child_text_dynamic: "\<not> literal_text_child c \<Longrightarrow> child_text c = []"
  by (auto simp: literal_text_child_def child_text_def split: option.splits)

lemma no_literal_text:
  assumes "\<not> list_ex literal_text_child cs"
  shows "filter truthy (map child_text cs) = []"
  using assms by (induction cs) (simp_all add: child_text_dynamic truthy_def)

lemma trim_empty: "trim [] = []"
  by (simp add: trim_def)

lemma extractTextContent_dynamic:
  assumes "case children el of None \<Rightarrow> True | Some cs \<Rightarrow> \<not> list_ex literal_text_child cs"
  shows "extractTextContent (Some el) = []"
  using assms by (simp add: extractTextContent_def no_literal_text trim_empty split: option.splits)

lemma attribute_step_other:
  "\<not> literal_string_attribute k a \<Longrightarrow> attribute_step acc a k = acc k"
  by (auto simp: attribute_step_def literal_string_attribute_def split: option.splits)

lemma extractElementAttributes_absent_aux:
  "\<not> list_ex (literal_string_attribute k) attrs \<Longrightarrow> foldl attribute_step acc attrs k = acc k"
  by (induction attrs arbitrary: acc) (simp_all add: attribute_step_other)

lemma extractElementAttributes_absent:
  "\<not> list_ex (literal_string_attribute k) attrs \<Longrightarrow> extractElementAttributes attrs k = None"
  by (simp add: extractElementAttributes_def extractElementAttributes_absent_aux)

lemma content_pushed_iff:
  "has_content_attribute options (pushed_attributes h options d)
     \<longleftrightarrow> includeContent options \<and> content_keys (content d) > 0"
  by (simp add: has_content_attribute_def content_attribute_prefix_def pushed_attributes_def Let_def)

text \<open>
  C7. For an element with no literal text child and tag attributes with no
  literal-string \<open>placeholder\<close> or \<open>className\<close>, the content object has no field
  and the serializer pushes no content attribute, whatever \<open>includeContent\<close>
  is. In general the content attribute is pushed exactly when the facet is
  enabled and the content object has at least one field.
\<close>

theorem content_presence:
  assumes "case children el of None \<Rightarrow> True | Some cs \<Rightarrow> \<not> list_ex literal_text_child cs"
    and "\<not> list_ex (literal_string_attribute ''placeholder'') attrs"
    and "\<not> list_ex (literal_string_attribute ''className'') attrs"
  shows "content_keys (buildContentObject (extractTextContent (Some el)) (extractElementAttributes attrs)) = 0
    \<and> \<not> has_content_attribute options
          (pushed_attributes h options
             (d\<lparr> content := buildContentObject (extractTextContent (Some el)) (extractElementAttributes attrs) \<rparr>))
    \<and> (has_content_attribute options (pushed_attributes h options d)
          \<longleftrightarrow> includeContent options \<and> content_keys (content d) > 0)"
proof -
  let ?c = "buildContentObject (extractTextContent (Some el)) (extractElementAttributes attrs)"
  have t: "extractTextContent (Some el) = []"
    using assms(1) by (rule extractTextContent_dynamic)
  have p: "extractElementAttributes attrs ''placeholder'' = None"
    using assms(2) by (rule extractElementAttributes_absent)
  have c: "extractElementAttributes attrs ''className'' = None"
    using assms(3) by (rule extractElementAttributes_absent)
  have k: "content_keys ?c = 0"
    by (simp add: buildContentObject_def content_keys_def truthy_field_def truthy_def t p c)
  then have "\<not> has_content_attribute options (pushed_attributes h options (d\<lparr> content := ?c \<rparr>))"
    by (simp add: content_pushed_iff)
  with k content_pushed_iff [of options h d] show ?thesis by blast
qed

theorem content_presence_witness:
  "\<not> list_ex literal_text_child (the (children spinner_element))
   \<and> \<not> list_ex (literal_string_attribute ''placeholder'') spinner_attributes
   \<and> \<not> list_ex (literal_string_attribute ''className'') spinner_attributes
   \<and> includeContent default_options
   \<and> content_keys (buildContentObject (extractTextContent (Some spinner_element))
        (extractElementAttributes spinner_attributes)) = 0
   \<and> \<not> has_content_attribute default_options
        (pushed_attributes example_host default_options
           (button_data\<lparr> content := buildContentObject (extractTextContent (Some spinner_element))
              (extractElementAttributes spinner_attributes) \<rparr>))"
proof -
  have t: "\<not> list_ex literal_text_child (the (children spinner_element))"
    by (simp add: spinner_element_def literal_text_child_def)
  then have a: "case children spinner_element of None \<Rightarrow> True
      | Some cs \<Rightarrow> \<not> list_ex literal_text_child cs"
    by (simp add: spinner_element_def)
  have b: "\<not> list_ex (literal_string_attribute ''placeholder'') spinner_attributes"
    and c: "\<not> list_ex (literal_string_attribute ''className'') spinner_attributes"
    by (simp_all add: spinner_attributes_def literal_string_attribute_def)
  have d: "includeContent default_options" by (simp add: default_options_def)
  from content_presence [OF a b c, of default_options example_host button_data] t b c d
  show ?thesis by blast
qed

subsection \<open>Enclosing-element context\<close>

lemma forget_update [simp]: "forget (st\<lparr> currentElement := e \<rparr>) = forget st"
  by (simp add: forget_def)

lemma forget_eq: "forget a = forget b \<Longrightarrow> currentElement a = currentElement b \<Longrightarrow> a = b"
  by (cases a, cases b) (simp add: forget_def)

lemma forget_set: "forget a = forget b \<Longrightarrow> a\<lparr> currentElement := e \<rparr> = b\<lparr> currentElement := e \<rparr>"
  by (cases a, cases b) (simp add: forget_def)

lemma extractTextContent_enclosing: "extractTextContent e = text_of_enclosing e"
  by (simp add: extractTextContent_def text_of_enclosing_def text_content_spec_def
      join_pieces_eq trim_trimmed split: option.splits)

lemma enter_opening_annotate:
  "enter_opening h options pth fl st j = annotate_nearest h options pth fl (currentElement st) st j"
  by (simp add: enter_opening_def annotate_nearest_def extractTextContent_enclosing truthy_def
      Let_def split: option.splits)

lemma annotate_forget:
  "forget (annotate_nearest h options pth fl enc st j)
     = annotate_nearest h options pth fl enc (forget st) j"
  by (simp add: annotate_nearest_def forget_def Let_def split: option.splits)


lemma walk_refines:
  "(\<forall>b enc st'. shaped b n \<and> forget st' = forget st \<and> (b \<longrightarrow> enc = currentElement st)
      \<longrightarrow> forget (walk h options pth fl st n) = forget (walk_nearest h options pth fl enc st' n))"
  "(\<forall>enc st'. shaped_nodes ns \<and> forget st' = forget st
      \<longrightarrow> forget (walk_nodes h options pth fl st ns)
          = forget (walk_nearest_nodes h options pth fl enc st' ns))"
proof (induction h options pth fl st n and h options pth fl st ns
    rule: walk_walk_nodes.induct)
  case (1 h options pth fl st op cl kids)
  show ?case
  proof (intro allI impI, elim conjE)
    fix b enc st'
    assume sh: "shaped b (ElementNode op cl kids)"
      and f: "forget st' = forget st"
    let ?E = "ElementNode op cl kids"
    let ?inside = "Some \<lparr> element_type = ''JSXElement'', children = Some (map as_child kids) \<rparr>"
    let ?s0 = "enter h options pth fl st ?E"
    let ?s1 = "walk h options pth fl ?s0 op"
    let ?s1' = "walk_nearest h options pth fl ?inside st' op"
    let ?s2 = "case cl of None \<Rightarrow> ?s1 | Some c \<Rightarrow> walk h options pth fl ?s1 c"
    let ?s2' = "case cl of None \<Rightarrow> ?s1'
       | Some c \<Rightarrow> walk_nearest h options pth fl ?inside ?s1' c"
    have f0: "forget st' = forget ?s0" using f by simp
    have c0: "?inside = currentElement ?s0" by simp
    from sh have so: "shaped True op" by simp
    have f1: "forget ?s1 = forget ?s1'"
      using "1.IH"(1) [OF refl] so f0 c0 by blast
    have f2: "forget ?s2 = forget ?s2'"
    proof (cases cl)
      case None
      then show ?thesis using f1 by simp
    next
      case (Some c)
      from Some sh have "shaped False c" by simp
      moreover have "forget (walk h options pth fl ?s1 c)
          = forget (walk_nearest h options pth fl ?inside ?s1' c)"
        using "1.IH"(2) [OF refl refl Some] \<open>shaped False c\<close> f1 [symmetric] by blast
      ultimately show ?thesis using Some by simp
    qed
    from sh have sk: "shaped_nodes kids" by simp
    have "forget (walk_nodes h options pth fl ?s2 kids)
        = forget (walk_nearest_nodes h options pth fl ?inside ?s2' kids)"
      using "1.IH"(3) [OF refl refl refl] sk f2 [symmetric] by blast
    then show "forget (walk h options pth fl st ?E)
        = forget (walk_nearest h options pth fl enc st' ?E)"
      by (simp only: walk.simps walk_nearest.simps Let_def)
  qed
next
  case (2 h options pth fl st jsxNode subs)
  show ?case
  proof (intro allI impI, elim conjE)
    fix b enc st'
    assume sh: "shaped b (OpeningNode jsxNode subs)"
      and f: "forget st' = forget st"
      and c: "b \<longrightarrow> enc = currentElement st"
    from sh c have e: "enc = currentElement st" by simp
    let ?x = "enter h options pth fl st (OpeningNode jsxNode subs)"
    let ?x' = "annotate_nearest h options pth fl enc st' jsxNode"
    have "forget ?x' = forget ?x"
      using f by (simp add: enter_opening_annotate annotate_forget e)
    moreover from sh have "shaped_nodes subs" by simp
    ultimately have "forget (walk_nodes h options pth fl ?x subs)
        = forget (walk_nearest_nodes h options pth fl enc ?x' subs)"
      using "2.IH" by blast
    then show "forget (walk h options pth fl st (OpeningNode jsxNode subs))
        = forget (walk_nearest h options pth fl enc st' (OpeningNode jsxNode subs))"
      by (simp only: walk.simps walk_nearest.simps)
  qed
next
  case (3 h options pth fl st v)
  then show ?case by simp
next
  case (4 h options pth fl st e)
  then show ?case
    by (simp only: walk.simps walk_nearest.simps enter.simps shaped.simps) blast
next
  case (5 h options pth fl st v)
  then show ?case by simp
next
  case (6 h options pth fl st t subs)
  then show ?case
    by (simp only: walk.simps walk_nearest.simps enter.simps shaped.simps) blast
next
  case (7 h options pth fl st)
  then show ?case by simp
next
  case (8 h options pth fl st n ns)
  show ?case
  proof (intro allI impI, elim conjE)
    fix enc st'
    assume sh: "shaped_nodes (n # ns)" and f: "forget st' = forget st"
    from sh have "shaped False n" and sn: "shaped_nodes ns" by simp_all
    with f "8.IH"(1) have "forget (walk h options pth fl st n)
        = forget (walk_nearest h options pth fl enc st' n)" by blast
    with sn "8.IH"(2) have "forget (walk_nodes h options pth fl (walk h options pth fl st n) ns)
        = forget (walk_nearest_nodes h options pth fl enc
            (walk_nearest h options pth fl enc st' n) ns)"
      by metis
    then show "forget (walk_nodes h options pth fl st (n # ns))
        = forget (walk_nearest_nodes h options pth fl enc st' (n # ns))" by simp
  qed
qed

lemma enter_opening_context:
  "currentElement (enter_opening h options pth fl st j) = currentElement st"
  by (simp add: enter_opening_def Let_def)

lemma walk_keeps_context:
  "currentElement st \<noteq> None \<longrightarrow> currentElement (walk h options pth fl st n) \<noteq> None"
  "currentElement st \<noteq> None \<longrightarrow> currentElement (walk_nodes h options pth fl st ns) \<noteq> None"
proof (induction h options pth fl st n and h options pth fl st ns rule: walk_walk_nodes.induct)
  case (1 h options pth fl st op cl kids)
  let ?s0 = "enter h options pth fl st (ElementNode op cl kids)"
  let ?s1 = "walk h options pth fl ?s0 op"
  let ?s2 = "case cl of None \<Rightarrow> ?s1 | Some c \<Rightarrow> walk h options pth fl ?s1 c"
  have "currentElement ?s0 \<noteq> None" by simp
  with "1.IH"(1) [OF refl] have c1: "currentElement ?s1 \<noteq> None" by blast
  have c2: "currentElement ?s2 \<noteq> None"
  proof (cases cl)
    case None
    with c1 show ?thesis by simp
  next
    case (Some c)
    from "1.IH"(2) [OF refl refl Some] c1
    have "currentElement (walk h options pth fl ?s1 c) \<noteq> None" by blast
    with Some show ?thesis by simp
  qed
  with "1.IH"(3) [OF refl refl refl]
  have "currentElement (walk_nodes h options pth fl ?s2 kids) \<noteq> None" by blast
  then show ?case by (simp only: walk.simps Let_def) simp
next
  case (2 h options pth fl st jsxNode subs)
  then show ?case by (simp add: enter_opening_context)
next
  case (8 h options pth fl st n ns)
  then show ?case by simp
qed simp_all

lemma walk_element_context:
  "currentElement (walk h options pth fl st (ElementNode op cl kids)) \<noteq> None"
proof -
  let ?E = "ElementNode op cl kids"
  have "walk h options pth fl st ?E
      = walk h options pth fl (st\<lparr> currentElement := Some (as_element ?E) \<rparr>) ?E"
    by (cases cl) (simp_all add: Let_def)
  moreover have "currentElement (st\<lparr> currentElement := Some (as_element ?E) \<rparr>) \<noteq> None"
    by simp
  ultimately show ?thesis
    using walk_keeps_context(1)
      [of "st\<lparr> currentElement := Some (as_element ?E) \<rparr>" h options pth fl ?E]
    by simp
qed

text \<open>
  C2 (amended). The handler extracts the text for an opening tag from the
  element entered last: it does what the specification's handler does with
  that element as the enclosing one. For an opening tag visited right after
  its own element is entered this is the tag's own element, whatever the
  context was before. The context is never reverted: after the traversal of a
  full element it is still an element, never idle. On a tree as the parser
  builds it, where every opening tag is the first sub-node visited of its own
  element, the insertions and the counters are those of the traversal that
  hands every opening tag its nearest enclosing element (\<open>walk_nearest\<close>), so
  no opening tag picks up the children of an element already left.
\<close>

theorem enclosing_element_context:
  "enter_opening h options pth fl st j
     = annotate_nearest h options pth fl (currentElement st) st j
   \<and> enter h options pth fl
        (enter h options pth fl st (ElementNode (OpeningNode j subs) cl kids)) (OpeningNode j subs)
     = annotate_nearest h options pth fl
         (Some \<lparr> element_type = ''JSXElement'', children = Some (map as_child kids) \<rparr>)
         (st\<lparr> currentElement :=
               Some \<lparr> element_type = ''JSXElement'', children = Some (map as_child kids) \<rparr> \<rparr>) j
   \<and> (parser_shaped n \<longrightarrow>
        magicString (walk h options pth fl st n)
          = magicString (walk_nearest h options pth fl enc st n)
        \<and> changedElementsCount (walk h options pth fl st n)
          = changedElementsCount (walk_nearest h options pth fl enc st n)
        \<and> stats (walk h options pth fl st n) = stats (walk_nearest h options pth fl enc st n))
   \<and> currentElement (walk h options pth fl st (ElementNode op cl' kids')) \<noteq> None"
proof -
  have 1: "enter_opening h options pth fl st j
     = annotate_nearest h options pth fl (currentElement st) st j"
    by (rule enter_opening_annotate)
  have 2: "enter h options pth fl
        (enter h options pth fl st (ElementNode (OpeningNode j subs) cl kids)) (OpeningNode j subs)
     = annotate_nearest h options pth fl
         (Some \<lparr> element_type = ''JSXElement'', children = Some (map as_child kids) \<rparr>)
         (st\<lparr> currentElement :=
               Some \<lparr> element_type = ''JSXElement'', children = Some (map as_child kids) \<rparr> \<rparr>) j"
    by (simp add: enter_opening_annotate)
  have "parser_shaped n \<longrightarrow>
      forget (walk h options pth fl st n) = forget (walk_nearest h options pth fl enc st n)"
    using walk_refines(1) [of n st h options pth fl] unfolding parser_shaped_def by blast
  moreover have "\<And>a b. forget a = forget b \<Longrightarrow>
      magicString a = magicString b \<and> changedElementsCount a = changedElementsCount b
      \<and> stats a = stats b"
  proof -
    fix a b :: walk_state
    assume "forget a = forget b"
    then show "magicString a = magicString b \<and> changedElementsCount a = changedElementsCount b
      \<and> stats a = stats b"
      by (cases a, cases b) (simp add: forget_def)
  qed
  ultimately have 3: "parser_shaped n \<longrightarrow>
        magicString (walk h options pth fl st n)
          = magicString (walk_nearest h options pth fl enc st n)
        \<and> changedElementsCount (walk h options pth fl st n)
          = changedElementsCount (walk_nearest h options pth fl enc st n)
        \<and> stats (walk h options pth fl st n) = stats (walk_nearest h options pth fl enc st n)"
    by blast
  from 1 2 3 walk_element_context [of h options pth fl st op cl' kids']
  show ?thesis by blast
qed

theorem enclosing_element_context_witness:
  \<open>parser_shaped (program ul_element)
   \<and> magicString (walk example_host name_content_options ''src/App.tsx'' ''App.tsx'' idle_state
        (program ul_element))
     = magicString (walk_nearest example_host name_content_options ''src/App.tsx'' ''App.tsx''
        None idle_state (program ul_element))
   \<and> magicString (walk_nearest example_host name_content_options ''src/App.tsx'' ''App.tsx''
        None idle_state (program ul_element))
     = [(3, '' data-gm-name="ul"''),
        (7, '' data-gm-name="li" data-gm-content="%7B%22text%22%3A%22one%22%7D"''),
        (19, '' data-gm-name="li" data-gm-content="%7B%22text%22%3A%22two%22%7D"'')]\<close>
proof -
  have a: "parser_shaped (program ul_element)"
    by (simp add: parser_shaped_def example_defs)
  have b: \<open>magicString (walk_nearest example_host name_content_options ''src/App.tsx'' ''App.tsx''
        None idle_state (program ul_element))
     = [(3, '' data-gm-name="ul"''),
        (7, '' data-gm-name="li" data-gm-content="%7B%22text%22%3A%22one%22%7D"''),
        (19, '' data-gm-name="li" data-gm-content="%7B%22text%22%3A%22two%22%7D"'')]\<close>
    by (simp add: annotate_nearest_def text_of_enclosing_def text_content_spec_def
        literal_piece_def trimmed_def white_space_code_def name_content_options_def
        example_defs model_defs)
  from a enclosing_element_context [where n = "program ul_element" and h = example_host
      and options = name_content_options and pth = "''src/App.tsx''" and fl = "''App.tsx''"
      and st = idle_state and enc = None]
  have "magicString (walk example_host name_content_options ''src/App.tsx'' ''App.tsx'' idle_state
        (program ul_element))
     = magicString (walk_nearest example_host name_content_options ''src/App.tsx'' ''App.tsx''
        None idle_state (program ul_element))"
    by blast
  with a b show ?thesis by simp
qed

theorem enclosing_element_context_counterexample:
  "currentElement idle_state = None
   \<and> currentElement (walk example_host name_content_options ''src/App.tsx'' ''App.tsx''
        idle_state (program ul_element))
     = Some \<lparr> element_type = ''JSXElement'',
              children = Some [\<lparr> child_type = ''JSXText'', child_value = Some ''two'',
                                 child_expression = None \<rparr>] \<rparr>"
  by (simp add: name_content_options_def example_defs model_defs)

subsection \<open>Skipped and processed opening tags\<close>

lemma enter_opening_skipped:
  assumes "shouldSkipElement (Some nm) options" and "nm \<noteq> []"
    and "extractElementName n = Some nm"
  shows "enter_opening h options pth fl st n
    = st\<lparr> stats := (stats st)\<lparr> skippedElements := skippedElements (stats st) + 1 \<rparr> \<rparr>"
  using assms by (simp add: enter_opening_def truthy_def)


text \<open>
  C3 (amended). For every configuration and every opening tag whose extracted
  name is exactly \<open>Fragment\<close> or \<open>React.Fragment\<close>, the handler registers no
  insertion and counts no tagged element, and it increments the
  skipped-element counter by one.
\<close>

theorem fragment_counted:
  assumes "extractElementName n = Some ''Fragment'' \<or> extractElementName n = Some ''React.Fragment''"
  shows "magicString (enter_opening h options pth fl st n) = magicString st
    \<and> changedElementsCount (enter_opening h options pth fl st n) = changedElementsCount st
    \<and> skippedElements (stats (enter_opening h options pth fl st n))
        = skippedElements (stats st) + 1"
proof -
  from assms obtain nm where nm: "extractElementName n = Some nm"
    and f: "nm = ''Fragment'' \<or> nm = ''React.Fragment''" by blast
  from f have "shouldSkipElement (Some nm) options" and "nm \<noteq> []"
    by (auto simp: shouldSkipElement_def truthy_def)
  then have "enter_opening h options pth fl st n
    = st\<lparr> stats := (stats st)\<lparr> skippedElements := skippedElements (stats st) + 1 \<rparr> \<rparr>"
    using nm by (rule enter_opening_skipped)
  then show ?thesis by simp
qed

theorem fragment_counted_witness:
  "extractElementName fragment_tag = Some ''Fragment''
   \<and> magicString (enter_opening example_host default_options ''src/App.tsx'' ''App.tsx''
        idle_state fragment_tag) = []
   \<and> skippedElements (stats (enter_opening example_host default_options ''src/App.tsx''
        ''App.tsx'' idle_state fragment_tag)) = 1"
proof -
  have n: "extractElementName fragment_tag = Some ''Fragment''"
    by (simp add: extractElementName_def fragment_tag_def simple_tag_def)
  then have "extractElementName fragment_tag = Some ''Fragment''
      \<or> extractElementName fragment_tag = Some ''React.Fragment''" by simp
  from fragment_counted [OF this, of example_host default_options "''src/App.tsx''"
      "''App.tsx''" idle_state] n
  show ?thesis by (simp add: idle_state_def zero_stats_def)
qed

theorem fragment_counted_counterexample:
  "extractElementName fragment_tag = Some ''Fragment''
   \<and> skippedElements zero_stats = 0
   \<and> transform example_host default_options zero_stats fragment_source ''/app/src/App.tsx''
       = (Some fragment_source,
          \<lparr> totalFiles = 1, processedFiles = 1, totalElements = 0, skippedElements = 1 \<rparr>)"
  by (simp add: example_defs model_defs)

subsection \<open>Parse failure\<close>

text \<open>
  C4 (amended). For a file that passes the file filter and whose text the
  parser rejects, \<open>transform\<close> returns \<open>null\<close> with no insertion made; the
  files-seen counter is incremented, and so is the files-processed counter.
  The other counters stay.
\<close>

theorem parse_failure:
  assumes "shouldProcessFile h ident options" and "parse h code = None"
  shows "transform h options s code ident
    = (None, s\<lparr> totalFiles := totalFiles s + 1, processedFiles := processedFiles s + 1 \<rparr>)"
  using assms by (simp add: transform_def Let_def)

theorem parse_failure_witness:
  "shouldProcessFile example_host ''/app/src/App.tsx'' default_options
   \<and> parse example_host ''<div'' = None
   \<and> transform example_host default_options zero_stats ''<div'' ''/app/src/App.tsx''
       = (None, \<lparr> totalFiles = 1, processedFiles = 1, totalElements = 0, skippedElements = 0 \<rparr>)"
proof -
  have a: "shouldProcessFile example_host ''/app/src/App.tsx'' default_options"
    by (simp add: example_defs shouldProcessFile_def Let_def)
  have b: "parse example_host ''<div'' = None"
    by (simp add: example_defs)
  from parse_failure [OF a b, of zero_stats] a b show ?thesis
    by (simp add: zero_stats_def)
qed

theorem parse_failure_counterexample:
  "parse example_host ''<div'' = None
   \<and> processedFiles zero_stats = 0
   \<and> processedFiles (snd (transform example_host default_options zero_stats ''<div''
        ''/app/src/App.tsx'')) = 1"
  by (simp add: example_defs model_defs)

subsection \<open>Opening tags without offsets\<close>





end
